theory Spec2Isabelle
  imports Complex_Main
begin

section \<open>Scores\<close>

text \<open>
  The search of \<open>my_custom_player.py\<close> works on Python numbers: the evaluators return
  integers or floats, \<open>float("inf")\<close> and \<open>float("-inf")\<close> are the sentinels of the
  search, and the only operations of the search on them are \<open>min\<close>, \<open>max\<close> and the
  comparisons, which Python evaluates on the exact numeric values (an \<open>int\<close> and a
  \<open>float\<close> are compared by value). A score is therefore a rational number or one of the
  two infinities, ordered as Python orders them.
\<close>

datatype score = NegInf | Fin rat | PosInf

instantiation score :: linorder
begin

fun less_eq_score :: "score \<Rightarrow> score \<Rightarrow> bool" where
  "less_eq_score NegInf y = True"
| "less_eq_score (Fin a) NegInf = False"
| "less_eq_score (Fin a) (Fin b) = (a \<le> b)"
| "less_eq_score (Fin a) PosInf = True"
| "less_eq_score PosInf NegInf = False"
| "less_eq_score PosInf (Fin b) = False"
| "less_eq_score PosInf PosInf = True"

definition less_score :: "score \<Rightarrow> score \<Rightarrow> bool" where
  "less_score x y = (x \<le> y \<and> \<not> y \<le> x)"

instance
proof
  fix x y z :: score
  show "(x < y) = (x \<le> y \<and> \<not> y \<le> x)"
    by (simp add: less_score_def)
  show "x \<le> x"
    by (cases x) simp_all
  show "x \<le> y \<Longrightarrow> y \<le> z \<Longrightarrow> x \<le> z"
    by (cases x; cases y; cases z) simp_all
  show "x \<le> y \<Longrightarrow> y \<le> x \<Longrightarrow> x = y"
    by (cases x; cases y) simp_all
  show "x \<le> y \<or> y \<le> x"
    by (cases x; cases y) auto
qed

end

section \<open>The game engine, as the agent consumes it\<close>

text \<open>
  The module \<open>isolation\<close> is imported, not defined, by the agent. Its state objects are
  used through \<open>actions()\<close>, \<open>result(a)\<close>, \<open>terminal_test()\<close>, \<open>utility(player_id)\<close>,
  \<open>liberties(loc)\<close>, \<open>locs[player_id]\<close>, \<open>ply_count\<close> and \<open>str(board)\<close>. The engine is a
  parameter of every function below: a record of these operations on a state type
  \<open>'s\<close> with actions of type \<open>'a\<close>. Player ids and locations are Python integers; of
  the collection returned by \<open>liberties\<close> the agent only takes \<open>len\<close>.
\<close>

type_synonym loc = int

record ('s, 'a) game =
  actions :: "'s \<Rightarrow> 'a list"
  result :: "'s \<Rightarrow> 'a \<Rightarrow> 's"
  terminal_test :: "'s \<Rightarrow> bool"
  utility :: "'s \<Rightarrow> int \<Rightarrow> score"
  liberties :: "'s \<Rightarrow> loc \<Rightarrow> loc list"
  locs :: "'s \<Rightarrow> int \<Rightarrow> loc"
  ply_count :: "'s \<Rightarrow> int"
  board_str :: "'s \<Rightarrow> string"

section \<open>The evaluators\<close>

text \<open>\<open>CustomPlayer.score\<close>: the number of own liberties minus the opponent's.\<close>

definition score :: "('s, 'a) game \<Rightarrow> int \<Rightarrow> 's \<Rightarrow> int" where
  "score g player_id state =
     (let own_loc = locs g state player_id;
          opp_loc = locs g state (1 - player_id);
          own_liberties = liberties g state own_loc;
          opp_liberties = liberties g state opp_loc
      in int (length own_liberties) - int (length opp_liberties))"

text \<open>
  \<open>CustomPlayer.score_central\<close>. The centre is \<open>float(math.ceil(11 / 2))\<close>,
  \<open>float(math.ceil(9 / 2))\<close>, where \<open>/\<close> is Python's true division; \<open>%\<close> and \<open>//\<close> by
  the positive 13 are \<open>mod\<close> and \<open>div\<close> on \<open>int\<close>. The centralities are floats with
  integer values, computed exactly; the last division by 10 is the one float operation
  that rounds, and the model returns the rational that Python rounds to a double.
\<close>

definition score_central :: "('s, 'a) game \<Rightarrow> int \<Rightarrow> 's \<Rightarrow> rat" where
  "score_central g player_id state =
     (let own_loc = locs g state player_id;
          opp_loc = locs g state (1 - player_id);
          own_liberties = liberties g state own_loc;
          opp_liberties = liberties g state opp_loc
      in if length own_liberties \<noteq> length opp_liberties
         then of_int (int (length own_liberties) - int (length opp_liberties))
         else
           (let cen_x = (of_int \<lceil>(11::rat) / 2\<rceil> :: rat);
                cen_y = (of_int \<lceil>(9::rat) / 2\<rceil> :: rat);
                x = (of_int (own_loc mod 13) :: rat);
                y = (of_int (own_loc div 13) :: rat);
                opp_x = (of_int (opp_loc mod 13) :: rat);
                opp_y = (of_int (opp_loc div 13) :: rat);
                own_centrality = ((11 - cen_x)\<^sup>2 - (x - cen_x)\<^sup>2)
                                 + ((9 - cen_y)\<^sup>2 - (y - cen_y)\<^sup>2);
                opp_centrality = ((11 - cen_x)\<^sup>2 - (opp_x - cen_x)\<^sup>2)
                                 + ((9 - cen_y)\<^sup>2 - (opp_y - cen_y)\<^sup>2)
            in (own_centrality - opp_centrality) / 10))"

text \<open>
  \<open>CustomPlayer.score_build\<close>. \<open>blocks_left\<close> is the number of characters \<open>1\<close> in
  \<open>str(state.board)\<close>, and \<open>blocks_left_percent\<close> is \<open>blocks_left / 99\<close>. For an integer
  \<open>blocks_left\<close> the quotient is never within rounding distance of 0.9, 0.7 or 0.5
  (89.1, 69.3 and 49.5 are no integers), so the float comparisons decide as the
  rational ones do. The multipliers 1.5 and 1.75 are exact in binary.
\<close>

definition blocks_left_percent :: "('s, 'a) game \<Rightarrow> 's \<Rightarrow> rat" where
  "blocks_left_percent g state =
     (let blocks_left = count_list (board_str g state) (CHR ''1'')
      in of_nat blocks_left / 99)"

definition score_build :: "('s, 'a) game \<Rightarrow> int \<Rightarrow> 's \<Rightarrow> rat" where
  "score_build g player_id state =
     (let own_loc = locs g state player_id;
          opp_loc = locs g state (1 - player_id);
          own_liberties = liberties g state own_loc;
          opp_liberties = liberties g state opp_loc;
          multiplier =
            (if blocks_left_percent g state > 9 / 10 then 3 / 2
             else if blocks_left_percent g state > 7 / 10 then 7 / 4
             else if blocks_left_percent g state > 5 / 10 then 2
             else 1)
      in of_nat (length own_liberties) - multiplier * of_nat (length opp_liberties))"

section \<open>The search\<close>

text \<open>
  \<open>CustomPlayer.ab_min_value\<close> and \<open>CustomPlayer.ab_max_value\<close>. Each \<open>for\<close> loop is a
  function of its own on the actions still to be visited, carrying the loop's variables
  \<open>value\<close>, \<open>alpha\<close> and \<open>beta\<close>; the \<open>return\<close> inside the loop is the branch that does
  not recurse. Python's \<open>min\<close> and \<open>max\<close> of two numbers are those of the order on
  scores. The score of the cut-off is the Basic evaluator \<open>self.score\<close>.
\<close>

function ab_min_value :: "('s, 'a) game \<Rightarrow> int \<Rightarrow> 's \<Rightarrow> score \<Rightarrow> score \<Rightarrow> int \<Rightarrow> score"
  and ab_min_loop :: "('s, 'a) game \<Rightarrow> int \<Rightarrow> 's \<Rightarrow> 'a list \<Rightarrow> score \<Rightarrow> score \<Rightarrow> score \<Rightarrow> int \<Rightarrow> score"
  and ab_max_value :: "('s, 'a) game \<Rightarrow> int \<Rightarrow> 's \<Rightarrow> score \<Rightarrow> score \<Rightarrow> int \<Rightarrow> score"
  and ab_max_loop :: "('s, 'a) game \<Rightarrow> int \<Rightarrow> 's \<Rightarrow> 'a list \<Rightarrow> score \<Rightarrow> score \<Rightarrow> score \<Rightarrow> int \<Rightarrow> score"
where
  "ab_min_value g player_id state alpha beta depth =
     (if terminal_test g state then utility g state player_id
      else if depth \<le> 0 then Fin (of_int (score g player_id state))
      else ab_min_loop g player_id state (actions g state) PosInf alpha beta depth)"
| "ab_min_loop g player_id state [] value alpha beta depth = value"
| "ab_min_loop g player_id state (action # rest) value alpha beta depth =
     (let value' = min value
            (ab_max_value g player_id (result g state action) alpha beta (depth - 1))
      in if value' \<le> alpha then value'
         else ab_min_loop g player_id state rest value' alpha (min beta value') depth)"
| "ab_max_value g player_id state alpha beta depth =
     (if terminal_test g state then utility g state player_id
      else if depth \<le> 0 then Fin (of_int (score g player_id state))
      else ab_max_loop g player_id state (actions g state) NegInf alpha beta depth)"
| "ab_max_loop g player_id state [] value alpha beta depth = value"
| "ab_max_loop g player_id state (action # rest) value alpha beta depth =
     (let value' = max value
            (ab_min_value g player_id (result g state action) alpha beta (depth - 1))
      in if value' \<ge> beta then value'
         else ab_max_loop g player_id state rest value' (max alpha value') beta depth)"
  by pat_completeness auto
termination
  apply (relation "measures
     [\<lambda>x. case x of
         Inl (Inl (g, p, s, a, b, d)) \<Rightarrow> 2 * nat d
       | Inl (Inr (g, p, s, as, v, a, b, d)) \<Rightarrow> 2 * nat d - 1
       | Inr (Inl (g, p, s, a, b, d)) \<Rightarrow> 2 * nat d
       | Inr (Inr (g, p, s, as, v, a, b, d)) \<Rightarrow> 2 * nat d - 1,
      \<lambda>x. case x of
         Inl (Inl (g, p, s, a, b, d)) \<Rightarrow> 0
       | Inl (Inr (g, p, s, as, v, a, b, d)) \<Rightarrow> Suc (length as)
       | Inr (Inl (g, p, s, a, b, d)) \<Rightarrow> 0
       | Inr (Inr (g, p, s, as, v, a, b, d)) \<Rightarrow> Suc (length as)]")
  apply auto
  done

text \<open>
  \<open>random.choice(seq)\<close> raises \<open>IndexError\<close> on an empty sequence and otherwise returns
  \<open>seq[i]\<close> for a drawn index \<open>i\<close> below \<open>len(seq)\<close>. The draw is the argument \<open>r\<close>,
  reduced to an index of the sequence.
\<close>

datatype error = IndexError

definition choice :: "nat \<Rightarrow> 'a list \<Rightarrow> error + 'a" where
  "choice r seq = (if seq = [] then Inl IndexError else Inr (seq ! (r mod length seq)))"

text \<open>
  \<open>CustomPlayer.alphabeta\<close>. The root loop carries \<open>alpha\<close>, \<open>best_score\<close>,
  \<open>best_move\<close> and the list \<open>scores\<close>; \<open>beta\<close> is never assigned in it. The loop returns
  \<open>best_move\<close> together with \<open>scores\<close>, of which \<open>alphabeta\<close> returns the first.
\<close>

fun alphabeta_loop ::
  "('s, 'a) game \<Rightarrow> int \<Rightarrow> 's \<Rightarrow> 'a list \<Rightarrow> score \<Rightarrow> score \<Rightarrow> score \<Rightarrow> 'a \<Rightarrow> score list \<Rightarrow> int
     \<Rightarrow> 'a \<times> score list" where
  "alphabeta_loop g player_id state [] alpha beta best_score best_move scores depth =
     (best_move, scores)"
| "alphabeta_loop g player_id state (a # rest) alpha beta best_score best_move scores depth =
     (let v = ab_min_value g player_id (result g state a) alpha beta depth;
          alpha' = max alpha v;
          scores' = scores @ [v]
      in if v > best_score
         then alphabeta_loop g player_id state rest alpha' beta v a scores' depth
         else alphabeta_loop g player_id state rest alpha' beta best_score best_move scores' depth)"

definition alphabeta :: "('s, 'a) game \<Rightarrow> int \<Rightarrow> nat \<Rightarrow> 's \<Rightarrow> int \<Rightarrow> error + 'a" where
  "alphabeta g player_id r state depth =
     (let alpha = NegInf; beta = PosInf; best_score = NegInf
      in case choice r (actions g state) of
           Inl e \<Rightarrow> Inl e
         | Inr best_move \<Rightarrow>
             Inr (fst (alphabeta_loop g player_id state (actions g state)
                         alpha beta best_score best_move [] depth)))"

text \<open>
  \<open>CustomPlayer.get_action\<close>. The agent's \<open>queue\<close> is the list of the actions put so
  far. \<open>alphabeta_calls\<close> is a counter of the model, not a field of the class: it is
  incremented where \<open>get_action\<close> calls \<open>self.alphabeta\<close>, so that whether the search
  was invoked can be read off the returned agent. An exception of \<open>random.choice\<close>
  leaves \<open>get_action\<close> before anything is put.
\<close>

record 'a agent =
  queue :: "'a list"
  alphabeta_calls :: nat

definition get_action ::
  "('s, 'a) game \<Rightarrow> int \<Rightarrow> nat \<Rightarrow> 'a agent \<Rightarrow> 's \<Rightarrow> error + 'a agent" where
  "get_action g player_id r self state =
     (if ply_count g state < 2
      then (case choice r (actions g state) of
              Inl e \<Rightarrow> Inl e
            | Inr a \<Rightarrow> Inr (self\<lparr>queue := queue self @ [a]\<rparr>))
      else (case alphabeta g player_id r state 4 of
              Inl e \<Rightarrow> Inl e
            | Inr a \<Rightarrow> Inr (self\<lparr>queue := queue self @ [a],
                                alphabeta_calls := alphabeta_calls self + 1\<rparr>)))"

section \<open>Minimax without pruning\<close>

text \<open>
  The reference of the equivalence property: a full minimax of the same depth, with the
  terminal rule, the depth cut-off and the evaluator of the search, and no window.
  A maximizing node takes the greatest value of its successors (\<open>-inf\<close> when there is
  none) and a minimizing node the least (\<open>+inf\<close> when there is none).
\<close>

primrec greatest :: "score list \<Rightarrow> score" where
  "greatest [] = NegInf"
| "greatest (v # vs) = max v (greatest vs)"

primrec least :: "score list \<Rightarrow> score" where
  "least [] = PosInf"
| "least (v # vs) = min v (least vs)"

function minimax_min_value :: "('s, 'a) game \<Rightarrow> int \<Rightarrow> 's \<Rightarrow> int \<Rightarrow> score"
  and minimax_max_value :: "('s, 'a) game \<Rightarrow> int \<Rightarrow> 's \<Rightarrow> int \<Rightarrow> score"
where
  "minimax_min_value g player_id state depth =
     (if terminal_test g state then utility g state player_id
      else if depth \<le> 0 then Fin (of_int (score g player_id state))
      else least (map (\<lambda>action. minimax_max_value g player_id (result g state action) (depth - 1))
                      (actions g state)))"
| "minimax_max_value g player_id state depth =
     (if terminal_test g state then utility g state player_id
      else if depth \<le> 0 then Fin (of_int (score g player_id state))
      else greatest (map (\<lambda>action. minimax_min_value g player_id (result g state action) (depth - 1))
                         (actions g state)))"
  by pat_completeness auto
termination
  by (relation "measure (\<lambda>x. case x of Inl (g, p, s, d) \<Rightarrow> nat d | Inr (g, p, s, d) \<Rightarrow> nat d)")
     auto

text \<open>
  What a search with the window \<open>(alpha, beta)\<close> may return for a node of minimax value
  \<open>m\<close>: a value \<open>v\<close> between \<open>min m beta\<close> and \<open>max m alpha\<close>. Inside the window it is
  \<open>m\<close> itself; at or below \<open>alpha\<close> it is an upper bound of \<open>m\<close>, at or above \<open>beta\<close> a
  lower bound.
\<close>

definition brackets :: "score \<Rightarrow> score \<Rightarrow> score \<Rightarrow> score \<Rightarrow> bool" where
  "brackets alpha beta m v \<longleftrightarrow> min m beta \<le> v \<and> v \<le> max m alpha"

section \<open>Formulas of the centrality\<close>

text \<open>
  The centrality of a location as \<open>score_central\<close> computes it: the centre is
  \<open>(6, 5)\<close>, the ceilings of \<open>11 / 2\<close> and \<open>9 / 2\<close>, and the constants are
  \<open>(11 - 6)\<^sup>2\<close> and \<open>(9 - 5)\<^sup>2\<close>.
\<close>

definition centrality :: "int \<Rightarrow> rat" where
  "centrality loc =
     (5\<^sup>2 - (of_int (loc mod 13) - 6)\<^sup>2) + (4\<^sup>2 - (of_int (loc div 13) - 5)\<^sup>2)"

text \<open>
  The centrality as the specification words it, with the centre \<open>(5.5, 4.5)\<close>:
  \<open>(5.5\<^sup>2 - (x - 5.5)\<^sup>2) + (4.5\<^sup>2 - (y - 4.5)\<^sup>2)\<close> for \<open>x = loc mod 13\<close>,
  \<open>y = loc div 13\<close>.
\<close>

definition claimed_centrality :: "int \<Rightarrow> rat" where
  "claimed_centrality loc =
     ((11 / 2)\<^sup>2 - (of_int (loc mod 13) - 11 / 2)\<^sup>2)
     + ((9 / 2)\<^sup>2 - (of_int (loc div 13) - 9 / 2)\<^sup>2)"

section \<open>Concrete engines\<close>

text \<open>
  A complete binary tree of depth three: the state \<open>n < 7\<close> has the two actions 0 and 1
  leading to \<open>2n + 1\<close> and \<open>2n + 2\<close>, the states from 7 on are terminal and won by the
  player of the parity of \<open>n\<close>. A player's location is its id, and the liberties of a
  state are given by a table.
\<close>

definition tree_liberties :: "nat \<Rightarrow> int \<Rightarrow> nat" where
  "tree_liberties n loc =
     (if loc = 0 then (if n = 1 then 5 else if n = 4 then 1 else if n = 5 then 2
                       else if n = 6 then 3 else 0)
      else (if n = 3 then 3 else 0))"

definition tree_game :: "(nat, nat) game" where
  "tree_game =
     \<lparr> actions = (\<lambda>n. if n < 7 then [0, 1] else []),
       result = (\<lambda>n a. 2 * n + 1 + a),
       terminal_test = (\<lambda>n. 7 \<le> n),
       utility = (\<lambda>n p. if int n mod 2 = p then PosInf else NegInf),
       liberties = (\<lambda>n loc. replicate (tree_liberties n loc) loc),
       locs = (\<lambda>n p. p),
       ply_count = (\<lambda>n. if n = 0 then 0 else if n < 3 then 1 else if n < 7 then 2 else 3),
       board_str = (\<lambda>n. []) \<rparr>"

text \<open>The same tree with a single action, 1, in every inner state.\<close>

definition one_move_game :: "(nat, nat) game" where
  "one_move_game = tree_game\<lparr>actions := (\<lambda>n. if n < 7 then [1] else [])\<rparr>"

text \<open>
  Positions for the evaluators: a state is the two locations, the two numbers of
  liberties and the string of the board.
\<close>

type_synonym position = "int \<times> int \<times> nat \<times> nat \<times> string"

definition board_game :: "(position, nat) game" where
  "board_game =
     \<lparr> actions = (\<lambda>s. []),
       result = (\<lambda>s a. s),
       terminal_test = (\<lambda>s. False),
       utility = (\<lambda>s p. Fin 0),
       liberties = (\<lambda>(l0, l1, n0, n1, b) loc. replicate (if loc = l0 then n0 else n1) 0),
       locs = (\<lambda>(l0, l1, n0, n1, b) p. if p = 0 then l0 else l1),
       ply_count = (\<lambda>s. 2),
       board_str = (\<lambda>(l0, l1, n0, n1, b). b) \<rparr>"

section \<open>The board of the engine\<close>

text \<open>
  Modelled from the spec: the geometry of the board, 11 by 9 cells, the cell \<open>(x, y)\<close>
  at the index \<open>x + 13 y\<close> (\<open>x = loc mod 13\<close>, \<open>y = loc div 13\<close>), and the knight's steps
  on these indices. The rest is the class \<open>Isolation\<close> of the imported module, which is
  not in the source file: \<open>board\<close> is a Python \<open>int\<close> used as a bitboard, the bit of a
  cell being set while the cell is open, and \<open>liberties(loc)\<close> are the knight's
  destinations \<open>c \<ge> 0\<close> of \<open>loc\<close> with \<open>board & (1 << c)\<close>. \<open>str\<close> of a Python \<open>int\<close> is
  its decimal numeral, with a minus sign for a negative one.
\<close>

fun dec_digits :: "nat \<Rightarrow> string" where
  "dec_digits n =
     (if n < 10 then [''0123456789'' ! n]
      else dec_digits (n div 10) @ [''0123456789'' ! (n mod 10)])"

definition py_str :: "int \<Rightarrow> string" where
  "py_str i = (if i < 0 then CHR ''-'' # dec_digits (nat (- i)) else dec_digits (nat i))"

text \<open>The 99 cells, the number of open cells of a board and their fraction.\<close>

definition cells :: "nat list" where
  "cells = concat (map (\<lambda>y. map (\<lambda>x. x + 13 * y) [0..<11]) [0..<9])"

definition open_cells :: "int \<Rightarrow> nat" where
  "open_cells board = length (filter (\<lambda>c. bit board c) cells)"

definition open_fraction :: "int \<Rightarrow> rat" where
  "open_fraction board = of_nat (open_cells board) / 99"

text \<open>
  The board with a given list of distinct open cells. \<open>blank_board\<close> has all 99 cells
  open; \<open>opening_board\<close> is the board after two plies, the players on the cells 57 and
  58; \<open>half_board\<close> has the 50 cells of the rows 0 to 3 and of \<open>x < 6\<close> in row 4 open,
  \<open>half_board_less\<close> the same without the cell 0.
\<close>

definition board_of :: "nat list \<Rightarrow> int" where
  "board_of cs = sum_list (map (\<lambda>c. 2 ^ c) cs)"

definition blank_board :: int where
  "blank_board = board_of cells"

definition opening_board :: int where
  "opening_board = blank_board - 2 ^ 57 - 2 ^ 58"



text \<open>The multiplier that the specification assigns to a fraction of open cells.\<close>

definition claimed_multiplier :: "rat \<Rightarrow> rat" where
  "claimed_multiplier fraction =
     (if fraction > 9 / 10 then 3 / 2
      else if fraction > 7 / 10 then 7 / 4
      else if fraction > 5 / 10 then 2
      else 1)"

text \<open>
  The engine on bitboards: a state is the board and the two locations. Only the
  operations that the evaluators read are those of the module; the search is not run
  on this engine.
\<close>

definition knight_steps :: "int list" where
  "knight_steps = [27, 15, - 11, - 25, - 27, - 15, 11, 25]"

type_synonym bitboard_state = "int \<times> int \<times> int"

definition bitboard_game :: "(bitboard_state, int) game" where
  "bitboard_game =
     \<lparr> actions = (\<lambda>s. []),
       result = (\<lambda>s a. s),
       terminal_test = (\<lambda>s. False),
       utility = (\<lambda>s p. Fin 0),
       liberties = (\<lambda>(board, l0, l1) loc.
          filter (\<lambda>c. 0 \<le> c \<and> bit board (nat c)) (map (\<lambda>a. loc + a) knight_steps)),
       locs = (\<lambda>(board, l0, l1) p. if p = 0 then l0 else l1),
       ply_count = (\<lambda>s. 2),
       board_str = (\<lambda>(board, l0, l1). py_str board) \<rparr>"

section \<open>Basic facts\<close>

lemma tree_game_simps [simp]:
  "actions tree_game n = (if n < 7 then [0, 1] else [])"
  "result tree_game n a = 2 * n + 1 + a"
  "terminal_test tree_game n = (7 \<le> n)"
  "utility tree_game n p = (if int n mod 2 = p then PosInf else NegInf)"
  "liberties tree_game n loc = replicate (tree_liberties n loc) loc"
  "locs tree_game n p = p"
  "ply_count tree_game n = (if n = 0 then 0 else if n < 3 then 1 else if n < 7 then 2 else 3)"
  by (simp_all add: tree_game_def)

lemma board_game_simps [simp]:
  "liberties board_game (l0, l1, n0, n1, b) loc = replicate (if loc = l0 then n0 else n1) 0"
  "locs board_game (l0, l1, n0, n1, b) p = (if p = 0 then l0 else l1)"
  "board_str board_game (l0, l1, n0, n1, b) = b"
  by (simp_all add: board_game_def)

lemma score_less_simps [simp]:
  "Fin a < Fin b \<longleftrightarrow> a < b" "NegInf < Fin a" "Fin a < PosInf" "NegInf < PosInf"
  "\<not> Fin a < NegInf" "\<not> PosInf < x" "\<not> x < NegInf"
  by (auto simp: less_score_def) (cases x; simp)+

lemma NegInf_least [simp]: "NegInf \<le> x"
  by simp

lemma PosInf_greatest [simp]: "x \<le> PosInf"
  by (cases x) simp_all

lemma le_NegInf_iff [simp]: "x \<le> NegInf \<longleftrightarrow> x = NegInf"
  by (cases x) simp_all

lemma PosInf_le_iff [simp]: "PosInf \<le> x \<longleftrightarrow> x = PosInf"
  by (cases x) simp_all

lemma ceil_half_width [simp]: "\<lceil>(11::rat) / 2\<rceil> = 6"
  by (rule ceiling_unique) simp_all

lemma ceil_half_height [simp]: "\<lceil>(9::rat) / 2\<rceil> = 5"
  by (rule ceiling_unique) simp_all

lemma bitboard_game_simps [simp]:
  "liberties bitboard_game (board, l0, l1) loc =
     filter (\<lambda>c. 0 \<le> c \<and> bit board (nat c)) (map (\<lambda>a. loc + a) knight_steps)"
  "locs bitboard_game (board, l0, l1) p = (if p = 0 then l0 else l1)"
  "board_str bitboard_game (board, l0, l1) = py_str board"
  by (simp_all add: bitboard_game_def)

lemma blank_board_value: "blank_board = 41523161203939122082683632224299007"
  by (simp add: blank_board_def board_of_def cells_def upt_rec)

lemma opening_board_value: "opening_board = 41523161203939121650338067996731391"
  by (simp add: opening_board_def blank_board_value)






lemma choice_member: "seq \<noteq> [] \<Longrightarrow> \<exists>a. choice r seq = Inr a \<and> a \<in> set seq"
  by (simp add: choice_def)

lemma alphabeta_loop_member:
  "fst (alphabeta_loop g player_id state as alpha beta best_score best_move scores depth)
     \<in> insert best_move (set as)"
  by (induction as arbitrary: alpha best_score best_move scores) (auto simp: Let_def)

section \<open>The root loop\<close>

text \<open>
  Claim C1: in the root loop of \<open>alphabeta\<close> the value \<open>v\<close> of an action \<open>a\<close> is the
  minimizing layer on \<open>result(a)\<close> with the depth \<open>depth - 1\<close>. The loop passes
  \<open>depth\<close> itself. On the tree, at the root with \<open>depth = 1\<close>, the values appended to
  \<open>scores\<close> are those of \<open>ab_min_value\<close> at depth 1, \<open>-3\<close> and \<open>2\<close>, and the move
  returned is 1; at depth \<open>1 - 1\<close> the minimizing layer returns \<open>5\<close> and \<open>0\<close>, for
  which the loop would keep the move 0.
\<close>

theorem alphabeta_root_depth:
  "snd (alphabeta_loop tree_game 0 0 (actions tree_game 0) NegInf PosInf NegInf 0 [] 1)
     = [Fin (- 3), Fin 2]
   \<and> ab_min_value tree_game 0 (result tree_game 0 0) NegInf PosInf 1 = Fin (- 3)
   \<and> ab_min_value tree_game 0 (result tree_game 0 0) NegInf PosInf (1 - 1) = Fin 5
   \<and> ab_min_value tree_game 0 (result tree_game 0 1) (Fin 5) PosInf (1 - 1) = Fin 0
   \<and> alphabeta tree_game 0 0 0 1 = Inr 1"
  by (simp add: alphabeta_def choice_def score_def tree_liberties_def Let_def)

text \<open>
  Claim C7: in a state with exactly one legal action, \<open>alphabeta\<close> returns that action,
  for every depth (so for every depth from 1 on) and every random draw.
\<close>

theorem alphabeta_single_action:
  "actions g state = [a] \<Longrightarrow> alphabeta g player_id r state depth = Inr a"
  by (simp add: alphabeta_def choice_def Let_def)

theorem alphabeta_single_action_witness:
  "actions one_move_game 0 = [1] \<and> alphabeta one_move_game 0 5 0 4 = Inr 1"
proof -
  have h: "actions one_move_game 0 = [1]"
    by (simp add: one_move_game_def)
  show ?thesis
    using h alphabeta_single_action [OF h, of 0 5 4] by simp
qed

text \<open>
  Claim C10: in a state with at least one legal action, \<open>alphabeta\<close> returns, for every
  depth, one of the legal actions of the state: the drawn fallback or an action of the
  enumeration.
\<close>

theorem alphabeta_legal:
  assumes "actions g state \<noteq> []"
  shows "\<exists>a. alphabeta g player_id r state depth = Inr a \<and> a \<in> set (actions g state)"
proof -
  from assms obtain b where b: "choice r (actions g state) = Inr b" "b \<in> set (actions g state)"
    using choice_member by blast
  have "fst (alphabeta_loop g player_id state (actions g state) NegInf PosInf NegInf b [] depth)
          \<in> insert b (set (actions g state))"
    by (rule alphabeta_loop_member)
  with b show ?thesis
    by (auto simp: alphabeta_def Let_def)
qed

theorem alphabeta_legal_witness:
  "actions tree_game 0 \<noteq> []
   \<and> (\<exists>a. alphabeta tree_game 0 0 0 4 = Inr a \<and> a \<in> set (actions tree_game 0))"
proof -
  have h: "actions tree_game 0 \<noteq> []" by simp
  show ?thesis
    using h alphabeta_legal [OF h, of 0 0 4] by simp
qed

section \<open>The recursive layers\<close>

text \<open>
  Claim C6: in both layers a terminal state returns its utility for the agent's own
  \<open>player_id\<close>, the same id in \<open>ab_min_value\<close> and \<open>ab_max_value\<close>, whatever the depth:
  the terminal test comes before the depth cut-off.
\<close>

theorem terminal_utility_first:
  "terminal_test g state \<Longrightarrow>
     ab_min_value g player_id state alpha beta depth = utility g state player_id
     \<and> ab_max_value g player_id state alpha beta depth = utility g state player_id"
  by simp

theorem terminal_utility_first_witness:
  "terminal_test tree_game 8
   \<and> ab_min_value tree_game 0 8 NegInf PosInf 0 = PosInf
   \<and> ab_max_value tree_game 0 8 NegInf PosInf 0 = PosInf
   \<and> Fin (of_int (score tree_game 0 8)) = Fin 0"
  using terminal_utility_first [of tree_game 8 0 NegInf PosInf 0]
  by (simp add: score_def tree_liberties_def)

section \<open>Pruning does not change the value\<close>

lemma brackets_refl: "brackets alpha beta m m"
  by (simp add: brackets_def)

lemma brackets_full: "brackets NegInf PosInf m v \<Longrightarrow> v = m"
  by (auto simp: brackets_def)

lemma max_cut:
  assumes "val \<le> alpha" "brackets alpha beta t c" "beta \<le> max val c"
  shows "brackets alpha beta (max val (max t R)) (max val c)"
proof -
  have "min (max val (max t R)) beta \<le> max val c"
    using assms(3) by (rule min.coboundedI2)
  moreover have "max val c \<le> max (max val (max t R)) alpha"
    using assms(1,2) by (auto simp: brackets_def le_max_iff_disj)
  ultimately show ?thesis by (simp add: brackets_def)
qed

lemma max_step:
  assumes "val \<le> alpha" "brackets alpha beta t c"
    and "brackets (max alpha (max val c)) beta (max (max val c) R) v"
  shows "brackets alpha beta (max val (max t R)) v"
proof -
  have "min (max val (max t R)) beta \<le> min (max (max val c) R) beta"
    using assms(2) by (auto simp: brackets_def le_max_iff_disj min_le_iff_disj)
  moreover have "max (max (max val c) R) (max alpha (max val c)) \<le> max (max val (max t R)) alpha"
    using assms(1,2) by (auto simp: brackets_def le_max_iff_disj)
  ultimately show ?thesis
    using assms(3) unfolding brackets_def by (meson order_trans)
qed


lemma min_cut:
  assumes "beta \<le> val" "brackets alpha beta t c" "min val c \<le> alpha"
  shows "brackets alpha beta (min val (min t R)) (min val c)"
proof -
  have "min val c \<le> max (min val (min t R)) alpha"
    using assms(3) by (rule max.coboundedI2)
  moreover have "min (min val (min t R)) beta \<le> min val c"
    using assms(1,2) by (auto simp: brackets_def min_le_iff_disj)
  ultimately show ?thesis by (simp add: brackets_def)
qed

lemma min_step:
  assumes "beta \<le> val" "brackets alpha beta t c"
    and "brackets alpha (min beta (min val c)) (min (min val c) R) v"
  shows "brackets alpha beta (min val (min t R)) v"
proof -
  have "max (min (min val c) R) alpha \<le> max (min val (min t R)) alpha"
    using assms(2) by (auto simp: brackets_def le_max_iff_disj min_le_iff_disj)
  moreover have "min (min val (min t R)) beta \<le> min (min (min val c) R) (min beta (min val c))"
    using assms(1,2) by (auto simp: brackets_def min_le_iff_disj)
  ultimately show ?thesis
    using assms(3) unfolding brackets_def by (meson order_trans)
qed

lemmas value_simps =
  ab_min_value.simps ab_max_value.simps minimax_min_value.simps minimax_max_value.simps

lemma pruning_brackets:
  "brackets alpha beta (minimax_min_value g player_id state depth)
     (ab_min_value g player_id state alpha beta depth)"
  "beta \<le> val \<Longrightarrow>
     brackets alpha beta
       (min val (least (map (\<lambda>a. minimax_max_value g player_id (result g state a) (depth - 1)) as)))
       (ab_min_loop g player_id state as val alpha beta depth)"
  "brackets alpha beta (minimax_max_value g player_id state depth)
     (ab_max_value g player_id state alpha beta depth)"
  "val \<le> alpha \<Longrightarrow>
     brackets alpha beta
       (max val (greatest (map (\<lambda>a. minimax_min_value g player_id (result g state a) (depth - 1)) as)))
       (ab_max_loop g player_id state as val alpha beta depth)"
proof (induction g player_id state alpha beta depth
         and g player_id state as val alpha beta depth
         and g player_id state alpha beta depth
         and g player_id state as val alpha beta depth
       rule: ab_min_value_ab_min_loop_ab_max_value_ab_max_loop.induct)
  case (1 g player_id state alpha beta depth)
  show ?case
  proof (cases "terminal_test g state \<or> depth \<le> 0")
    case True
    then show ?thesis by (auto simp: brackets_refl)
  next
    case False
    then have "brackets alpha beta
       (min PosInf (least (map (\<lambda>a. minimax_max_value g player_id (result g state a) (depth - 1))
                              (actions g state))))
       (ab_min_loop g player_id state (actions g state) PosInf alpha beta depth)"
      using "1.IH" by simp
    with False show ?thesis by (simp add: min_def)
  qed
next
  case (2 g player_id state val alpha beta depth)
  then show ?case by (simp add: brackets_refl min_def)
next
  case (3 g player_id state action rest val alpha beta depth)
  let ?c = "ab_max_value g player_id (result g state action) alpha beta (depth - 1)"
  let ?t = "minimax_max_value g player_id (result g state action) (depth - 1)"
  let ?R = "least (map (\<lambda>a. minimax_max_value g player_id (result g state a) (depth - 1)) rest)"
  have child: "brackets alpha beta ?t ?c" by (rule "3.IH"(1))
  show ?case
  proof (cases "min val ?c \<le> alpha")
    case True
    then show ?thesis
      using min_cut [OF "3.prems" child True, of ?R] by (simp add: Let_def del: value_simps)
  next
    case False
    have "brackets alpha (min beta (min val ?c)) (min (min val ?c) ?R)
            (ab_min_loop g player_id state rest (min val ?c) alpha (min beta (min val ?c)) depth)"
      by (rule "3.IH"(2) [OF refl False min.cobounded2])
    then show ?thesis
      using min_step [OF "3.prems" child] False by (simp add: Let_def del: value_simps)
  qed
next
  case (4 g player_id state alpha beta depth)
  show ?case
  proof (cases "terminal_test g state \<or> depth \<le> 0")
    case True
    then show ?thesis by (auto simp: brackets_refl)
  next
    case False
    then have "brackets alpha beta
       (max NegInf (greatest (map (\<lambda>a. minimax_min_value g player_id (result g state a) (depth - 1))
                                 (actions g state))))
       (ab_max_loop g player_id state (actions g state) NegInf alpha beta depth)"
      using "4.IH" by simp
    with False show ?thesis by (simp add: max_def)
  qed
next
  case (5 g player_id state val alpha beta depth)
  then show ?case by (simp add: brackets_refl max_def)
next
  case (6 g player_id state action rest val alpha beta depth)
  let ?c = "ab_min_value g player_id (result g state action) alpha beta (depth - 1)"
  let ?t = "minimax_min_value g player_id (result g state action) (depth - 1)"
  let ?R = "greatest (map (\<lambda>a. minimax_min_value g player_id (result g state a) (depth - 1)) rest)"
  have child: "brackets alpha beta ?t ?c" by (rule "6.IH"(1))
  show ?case
  proof (cases "beta \<le> max val ?c")
    case True
    then show ?thesis
      using max_cut [OF "6.prems" child True, of ?R] by (simp add: Let_def del: value_simps)
  next
    case False
    have "brackets (max alpha (max val ?c)) beta (max (max val ?c) ?R)
            (ab_max_loop g player_id state rest (max val ?c) (max alpha (max val ?c)) beta depth)"
      by (rule "6.IH"(2) [OF refl False max.cobounded2])
    then show ?thesis
      using max_step [OF "6.prems" child] False by (simp add: Let_def del: value_simps)
  qed
qed

text \<open>
  Claim C2: for every state and every depth, the pruning recursion started with the
  window \<open>(-inf, +inf)\<close> returns the value of the full minimax of the same depth, with
  the same terminal rule, cut-off and evaluator, in the maximizing layer and in the
  minimizing one.
\<close>

theorem pruning_preserves_value:
  "ab_max_value g player_id state NegInf PosInf depth = minimax_max_value g player_id state depth
   \<and> ab_min_value g player_id state NegInf PosInf depth = minimax_min_value g player_id state depth"
  using pruning_brackets(1,3) [of NegInf PosInf g player_id state depth]
  by (simp add: brackets_full)

section \<open>The policy of the opening\<close>

text \<open>
  Claim C8: with \<open>ply_count < 2\<close>, \<open>get_action\<close> puts the action that \<open>random.choice\<close>
  draws from \<open>actions(state)\<close>, a member of it, and does not call \<open>alphabeta\<close>; with
  \<open>ply_count \<ge> 2\<close> it puts the result of \<open>alphabeta\<close> at the depth 4. A member of
  \<open>actions(state)\<close> can only be reported where there is one: on an empty list
  \<open>random.choice\<close> raises. That the draw is uniform is a property of the random source,
  which is the argument \<open>r\<close> here.
\<close>

theorem get_action_policy:
  "(ply_count g state < 2 \<and> actions g state \<noteq> [] \<longrightarrow>
      (\<exists>a \<in> set (actions g state).
         choice r (actions g state) = Inr a
         \<and> get_action g player_id r self state
             = Inr \<lparr>queue = queue self @ [a], alphabeta_calls = alphabeta_calls self\<rparr>))
   \<and> (2 \<le> ply_count g state \<longrightarrow>
        get_action g player_id r self state
          = (case alphabeta g player_id r state 4 of
               Inl e \<Rightarrow> Inl e
             | Inr a \<Rightarrow> Inr \<lparr>queue = queue self @ [a],
                              alphabeta_calls = alphabeta_calls self + 1\<rparr>))"
  by (auto simp: get_action_def choice_def split: sum.splits)

theorem get_action_policy_witness:
  "ply_count tree_game 0 < 2 \<and> actions tree_game 0 \<noteq> []
   \<and> get_action tree_game 0 1 \<lparr>queue = [], alphabeta_calls = 0\<rparr> 0
       = Inr \<lparr>queue = [1], alphabeta_calls = 0\<rparr>
   \<and> 2 \<le> ply_count tree_game 3
   \<and> alphabeta tree_game 0 1 3 4 = Inr 1
   \<and> get_action tree_game 0 1 \<lparr>queue = [], alphabeta_calls = 0\<rparr> 3
       = Inr \<lparr>queue = [1], alphabeta_calls = 1\<rparr>"
proof -
  have a: "alphabeta tree_game 0 1 3 4 = Inr 1"
    by (simp add: alphabeta_def choice_def Let_def)
  show ?thesis
    using a get_action_policy [of tree_game 0 1 0 "\<lparr>queue = [], alphabeta_calls = 0\<rparr>"]
          get_action_policy [of tree_game 3 1 0 "\<lparr>queue = [], alphabeta_calls = 0\<rparr>"]
    by (simp add: choice_def)
qed

section \<open>The evaluators\<close>

text \<open>
  Claim C9: the Basic evaluator is antisymmetric in the player: from the opponent's id
  \<open>1 - player_id\<close> the score of the same state is the negated score.
\<close>

theorem score_antisymmetric: "score g (1 - player_id) state = - score g player_id state"
  by (simp add: score_def)

text \<open>
  Claim C3, as amended: where the numbers of liberties differ, \<open>score_central\<close> returns
  the Basic score; where they are equal it returns the difference of the centralities
  over 10, the centrality of a location being
  \<open>(5\<^sup>2 - (x - 6)\<^sup>2) + (4\<^sup>2 - (y - 5)\<^sup>2)\<close> with \<open>x = loc mod 13\<close>, \<open>y = loc div 13\<close>.
\<close>

theorem score_central_formula:
  "score_central g player_id state =
     (if length (liberties g state (locs g state player_id))
           \<noteq> length (liberties g state (locs g state (1 - player_id)))
      then of_int (score g player_id state)
      else (centrality (locs g state player_id)
              - centrality (locs g state (1 - player_id))) / 10)"
  by (simp add: score_central_def score_def centrality_def Let_def)

theorem score_central_formula_witness:
  "score_central board_game 0 (5, 0, 2, 2, []) = 7 / 2
   \<and> score_central board_game 0 (5, 0, 4, 1, []) = 3"
  using score_central_formula [of board_game 0 "(5, 0, 2, 2, [])"]
        score_central_formula [of board_game 0 "(5, 0, 4, 1, [])"]
  by (simp add: score_def centrality_def power2_eq_square)

text \<open>
  Claim C3 as stated, with the centre \<open>(5.5, 4.5)\<close>, fails: with two liberties each, the
  own location 5 and the opponent's 0, \<open>score_central\<close> returns \<open>3.5\<close> where the
  claimed formula gives 3.
\<close>

theorem score_central_counterexample:
  "length (liberties board_game (5, 0, 2, 2, []) (locs board_game (5, 0, 2, 2, []) 0))
     = length (liberties board_game (5, 0, 2, 2, []) (locs board_game (5, 0, 2, 2, []) (1 - 0)))
   \<and> \<not> terminal_test board_game (5, 0, 2, 2, [])
   \<and> score_central board_game 0 (5, 0, 2, 2, []) = 7 / 2
   \<and> (claimed_centrality (locs board_game (5, 0, 2, 2, []) 0)
        - claimed_centrality (locs board_game (5, 0, 2, 2, []) (1 - 0))) / 10 = 3
   \<and> score_central board_game 0 (5, 0, 2, 2, [])
        \<noteq> (claimed_centrality (locs board_game (5, 0, 2, 2, []) 0)
            - claimed_centrality (locs board_game (5, 0, 2, 2, []) (1 - 0))) / 10"
  by (simp add: score_central_def claimed_centrality_def Let_def power2_eq_square
        board_game_def)

text \<open>
  Claim C4: the multiplier of \<open>score_build\<close> is determined by the fraction of the
  remaining open cells. \<open>blocks_left\<close> counts the characters \<open>1\<close> of \<open>str(state.board)\<close>,
  the decimal numeral of the bitboard, not its set bits. On the board after two plies,
  97 of the 99 cells are open and the claimed multiplier is 1.5, which gives
  \<open>8 - 1.5 * 8 = -4\<close> for the eight liberties of each player; the numeral has seven
  characters \<open>1\<close>, the fraction of the code is \<open>7 / 99\<close>, the multiplier 1 and the
  score 0.
\<close>

theorem score_build_opening_board:
  "board_str bitboard_game (opening_board, 57, 58) = ''41523161203939121650338067996731391''
   \<and> blocks_left_percent bitboard_game (opening_board, 57, 58) = 7 / 99
   \<and> open_fraction opening_board = 97 / 99
   \<and> length (liberties bitboard_game (opening_board, 57, 58)
               (locs bitboard_game (opening_board, 57, 58) 0)) = 8
   \<and> length (liberties bitboard_game (opening_board, 57, 58)
               (locs bitboard_game (opening_board, 57, 58) (1 - 0))) = 8
   \<and> score_build bitboard_game 0 (opening_board, 57, 58) = 0
   \<and> of_nat 8 - claimed_multiplier (open_fraction opening_board) * of_nat 8 = - 4"
  by (simp add: opening_board_value py_str_def blocks_left_percent_def open_fraction_def
        open_cells_def cells_def upt_rec knight_steps_def score_build_def Let_def
        claimed_multiplier_def)



end
